theory Spec2Isabelle
  imports Main
begin

section \<open>Networks, providers and signers\<close>

text \<open>
  The module \<^verbatim>\<open>useNetworksAndSigners\<close> keeps a pair of chain connections (L1 and L2)
  derived from the wallet's single connection. The descriptors are the object literals
  the module passes to \<^verbatim>\<open>addCustomNetwork\<close>; a provider is either the wallet's
  \<^verbatim>\<open>Web3Provider\<close> or a \<^verbatim>\<open>new JsonRpcProvider(url)\<close>, where \<^verbatim>\<open>url\<close> is
  \<^verbatim>\<open>undefined\<close> when the \<^verbatim>\<open>rpcURLs\<close> table has no entry.
\<close>

type_synonym chain_id = int
type_synonym address = string

record Network =
  chainID :: chain_id
  name :: string
  explorerUrl :: string
  rpcURL :: string
  isCustom :: bool

record L1Network = Network +
  blockTime :: int
  partnerChainIDs :: "chain_id list"

record EthBridge =
  bridge :: address
  inbox :: address
  outbox :: address
  rollup :: address
  sequencerInbox :: address

record TokenBridge =
  l1CustomGateway :: address
  l1ERC20Gateway :: address
  l1GatewayRouter :: address
  l1MultiCall :: address
  l1ProxyAdmin :: address
  l1Weth :: address
  l1WethGateway :: address
  l2CustomGateway :: address
  l2ERC20Gateway :: address
  l2GatewayRouter :: address
  l2Multicall :: address
  l2ProxyAdmin :: address
  l2Weth :: address
  l2WethGateway :: address

record L2Network = Network +
  confirmPeriodBlocks :: int
  ethBridge :: EthBridge
  isArbitrum :: bool
  partnerChainID :: chain_id
  retryableLifetimeSeconds :: int
  tokenBridge :: TokenBridge

datatype provider = Web3Provider nat | JsonRpcProvider "string option"

datatype signer_key = AccountIndex nat | AccountAddress address

datatype signer = JsonRpcSigner provider signer_key

section \<open>The published result\<close>

datatype UseNetworksAndSignersStatus = LOADING | NOT_CONNECTED | NOT_SUPPORTED | CONNECTED

record 'n side =
  network :: 'n
  signer :: signer
  provider :: provider

record UseNetworksAndSignersConnectedResult =
  l1 :: "L1Network side"
  l2 :: "L2Network side"
  isConnectedToArbitrum :: bool

text \<open>
  \<^verbatim>\<open>UseNetworksAndSignersResult\<close> is the union of the three objects that carry a status
  only and the connected object, which carries both sides.
\<close>

datatype UseNetworksAndSignersResult =
    Loading
  | NotConnected
  | NotSupported
  | Connected UseNetworksAndSignersConnectedResult

fun status :: "UseNetworksAndSignersResult \<Rightarrow> UseNetworksAndSignersStatus" where
  "status Loading = LOADING"
| "status NotConnected = NOT_CONNECTED"
| "status NotSupported = NOT_SUPPORTED"
| "status (Connected c) = CONNECTED"

text \<open>
  \<^verbatim>\<open>defaultStatus\<close> reads \<^verbatim>\<open>typeof window.web3 === 'undefined'\<close> once, when the module
  loads; the argument says whether \<^verbatim>\<open>window.web3\<close> is defined. \<^verbatim>\<open>useState\<close> starts
  from the object holding that status.
\<close>

definition defaultStatus :: "bool \<Rightarrow> UseNetworksAndSignersStatus" where
  "defaultStatus web3Defined = (if \<not> web3Defined then NOT_CONNECTED else LOADING)"

definition initialResult :: "bool \<Rightarrow> UseNetworksAndSignersResult" where
  "initialResult web3Defined = (if \<not> web3Defined then NotConnected else Loading)"

section \<open>The consumer context\<close>

datatype error = Error string

text \<open>
  \<^verbatim>\<open>useContext\<close> yields the value of the nearest enclosing
  \<^verbatim>\<open>NetworksAndSignersContext.Provider\<close>, or the default \<^verbatim>\<open>undefined\<close> given to
  \<^verbatim>\<open>createContext\<close> when there is none.
\<close>

definition useNetworksAndSigners ::
  "UseNetworksAndSignersConnectedResult option \<Rightarrow> error + UseNetworksAndSignersConnectedResult" where
  "useNetworksAndSigners ctxt =
     (case ctxt of
        None \<Rightarrow> Inl (Error
          ''The useNetworksAndSigners Hook must only be used inside NetworksAndSignersContext.Provider.'')
      | Some c \<Rightarrow> Inr c)"

text \<open>
  What \<^verbatim>\<open>NetworksAndSignersProvider\<close> returns: the fallback called with the status, or
  the context provider around the children.
\<close>

datatype rendered =
    Fallback UseNetworksAndSignersStatus
  | ContextProvider UseNetworksAndSignersConnectedResult

definition renderProvider :: "UseNetworksAndSignersResult \<Rightarrow> rendered" where
  "renderProvider r = (case r of Connected c \<Rightarrow> ContextProvider c | _ \<Rightarrow> Fallback (status r))"

text \<open>The context value a component rendered among the children reads.\<close>

fun contextOfChildren :: "rendered \<Rightarrow> UseNetworksAndSignersConnectedResult option" where
  "contextOfChildren (Fallback s) = None"
| "contextOfChildren (ContextProvider c) = Some c"

section \<open>What the module imports\<close>

text \<open>
  The argument of \<^verbatim>\<open>addCustomNetwork\<close>: the two object literals, the same at both
  call sites of \<^verbatim>\<open>update\<close>.
\<close>

record AddCustomNetworkArgs =
  customL1Network :: L1Network
  customL2Network :: L2Network

definition ethLocal :: L1Network where
  "ethLocal =
     \<lparr>chainID = 1337, name = ''EthLocal'', explorerUrl = '''',
      rpcURL = ''http://localhost:8545'', isCustom = True,
      blockTime = 10, partnerChainIDs = [412346]\<rparr>"

definition arbLocal :: L2Network where
  "arbLocal =
     \<lparr>chainID = 412346, name = ''ArbLocal'', explorerUrl = '''',
      rpcURL = ''http://localhost:8547'', isCustom = True,
      confirmPeriodBlocks = 20,
      ethBridge =
        \<lparr>bridge = ''0xcaf1ded82e70c5af3d6585a1dcc3ff8f2ea42794'',
         inbox = ''0xc2c8f6ec5fcb9a9aeea4116a521594bf40ab6408'',
         outbox = ''0x86B30E87F64025085c7853E64355B97DE5D13393'',
         rollup = ''0x71b4f5764d732ddd5e34a9d60b7bf9f87905e7ed'',
         sequencerInbox = ''0x8cfc0044df41af12d4cbb6fd1c71aceafa503900''\<rparr>,
      isArbitrum = True,
      partnerChainID = 1337,
      retryableLifetimeSeconds = 604800,
      tokenBridge =
        \<lparr>l1CustomGateway = ''0xDe67138B609Fbca38FcC2673Bbc5E33d26C5B584'',
         l1ERC20Gateway = ''0x0Bdb0992B3872DF911260BfB60D72607eb22d5d4'',
         l1GatewayRouter = ''0x4535771b8D5C43100f126EdACfEc7eb60d391312'',
         l1MultiCall = ''0x36BeF5fD671f2aA8686023dE4797A7dae3082D5F'',
         l1ProxyAdmin = ''0xF7818cd5f5Dc379965fD1C66b36C0C4D788E7cDB'',
         l1Weth = ''0x24067223381F042fF36fb87818196dB4D2C56E9B'',
         l1WethGateway = ''0xBa3d12E370a4b592AAF0CA1EF09971D196c27aAd'',
         l2CustomGateway = ''0xF0B003F9247f2DC0e874710eD55e55f8C63B14a3'',
         l2ERC20Gateway = ''0x78a6dC8D17027992230c112432E42EC3d6838d74'',
         l2GatewayRouter = ''0x7b650845242a96595f3a9766D4e8e5ab0887936A'',
         l2Multicall = ''0x9b890cA9dE3D317b165afA7DFb8C65f2e4c95C20'',
         l2ProxyAdmin = ''0x7F85fB7f42A0c0D40431cc0f7DFDf88be6495e67'',
         l2Weth = ''0x36BeF5fD671f2aA8686023dE4797A7dae3082D5F'',
         l2WethGateway = ''0x2E76efCC2518CB801E5340d5f140B1c1911b4F4B''\<rparr>\<rparr>"

definition localNetworks :: AddCustomNetworkArgs where
  "localNetworks = \<lparr>customL1Network = ethLocal, customL2Network = arbLocal\<rparr>"

text \<open>
  The functions and tables \<^verbatim>\<open>update\<close> uses and the module imports. None of them is
  defined in the module, so each is a parameter, over a state \<open>'s\<close> of the network
  library that \<^verbatim>\<open>addCustomNetwork\<close> changes and the two lookups read:
  \<^item> \<open>getNetwork\<close>: the chain identifier a provider reports
    (\<^verbatim>\<open>(await p.getNetwork()).chainId\<close>), \<open>None\<close> when the call rejects;
  \<^item> \<open>getL1Network\<close>, \<open>getL2Network\<close>: \<open>None\<close> when the promise rejects;
  \<^item> \<open>addCustomNetwork\<close>: the new state, and \<open>False\<close> when the call throws;
  \<^item> \<open>formatAddress\<close>: the address check of the providers' library, which
    \<^verbatim>\<open>getSigner\<close> applies to a string argument: the address in its checksummed
    form, \<open>None\<close> when the string is no address and the check throws;
  \<^item> \<open>chainIdToDefaultL2ChainId\<close>, \<open>rpcURLs\<close>: the tables of
    \<^verbatim>\<open>../util/networks\<close>, \<open>None\<close> where an index gives \<^verbatim>\<open>undefined\<close>.
\<close>

record 's externals =
  getNetwork :: "provider \<Rightarrow> chain_id option"
  getL1Network :: "'s \<Rightarrow> provider \<Rightarrow> chain_id \<Rightarrow> L1Network option"
  getL2Network :: "'s \<Rightarrow> provider \<Rightarrow> L2Network option"
  addCustomNetwork :: "AddCustomNetworkArgs \<Rightarrow> 's \<Rightarrow> 's \<times> bool"
  formatAddress :: "address \<Rightarrow> address option"
  chainIdToDefaultL2ChainId :: "chain_id \<Rightarrow> chain_id option"
  rpcURLs :: "chain_id \<Rightarrow> string option"

text \<open>
  \<^verbatim>\<open>p.getSigner(addressOrIndex)\<close>: a signer for an account index, or for an address
  that passes the check, under its checksummed form; \<open>None\<close> when the call throws.
\<close>

fun getSigner :: "'s externals \<Rightarrow> provider \<Rightarrow> signer_key \<Rightarrow> signer option" where
  "getSigner im p (AccountIndex i) = Some (JsonRpcSigner p (AccountIndex i))"
| "getSigner im p (AccountAddress a) =
     (case formatAddress im a of
        None \<Rightarrow> None
      | Some a' \<Rightarrow> Some (JsonRpcSigner p (AccountAddress a')))"

section \<open>The resolution function\<close>

text \<open>
  One run of \<^verbatim>\<open>update\<close> leaves: the results it passed to \<^verbatim>\<open>setResult\<close>, in order;
  the arguments of its calls of \<^verbatim>\<open>addCustomNetwork\<close>, in order; and the state of the
  network library.
\<close>

record 's run =
  published :: "UseNetworksAndSignersResult list"
  registered :: "AddCustomNetworkArgs list"
  sdkState :: "'s"

definition setResult :: "UseNetworksAndSignersResult \<Rightarrow> 's run \<Rightarrow> 's run" where
  "setResult v r = r\<lparr>published := published r @ [v]\<rparr>"

text \<open>\<^verbatim>\<open>await addCustomNetwork({...})\<close> with the literal of the source.\<close>

definition registerLocal :: "'s externals \<Rightarrow> 's run \<Rightarrow> 's run \<times> bool" where
  "registerLocal im r =
     (case addCustomNetwork im localNetworks (sdkState r) of
        (s', ok) \<Rightarrow> (r\<lparr>registered := registered r @ [localNetworks], sdkState := s'\<rparr>, ok))"

text \<open>
  The rollup identifier in \<^verbatim>\<open>_selectedL2ChainId\<close>: the property when it is defined,
  else the default of the provider's chain.
\<close>

definition selectedL2 :: "'s externals \<Rightarrow> chain_id option \<Rightarrow> chain_id \<Rightarrow> chain_id option" where
  "selectedL2 im selectedL2ChainId providerChainId =
     (case selectedL2ChainId of
        Some c \<Rightarrow> Some c
      | None \<Rightarrow> chainIdToDefaultL2ChainId im providerChainId)"

text \<open>
  The callback of \<^verbatim>\<open>getL1Network(...).then\<close>: the wallet is on an L1 network. The
  boolean is \<open>False\<close> when the callback's promise rejects: a throw of
  \<^verbatim>\<open>addCustomNetwork\<close>, a rejection of \<^verbatim>\<open>getL2Network\<close>, or a throw of
  \<^verbatim>\<open>getSigner\<close> while the argument of \<^verbatim>\<open>setResult\<close> is built.
\<close>

definition onL1Network ::
  "'s externals \<Rightarrow> provider \<Rightarrow> address \<Rightarrow> chain_id \<Rightarrow> L1Network \<Rightarrow> 's run \<Rightarrow> 's run \<times> bool" where
  "onL1Network im web3Provider addr sel l1Network r =
     (let l2Provider = JsonRpcProvider (rpcURLs im sel) in
      case registerLocal im r of
        (r1, ok) \<Rightarrow>
          if \<not> ok then (r1, False)
          else
            (case getL2Network im (sdkState r1) l2Provider of
               None \<Rightarrow> (r1, False)
             | Some l2Network \<Rightarrow>
                 (let l1Provider = JsonRpcProvider (rpcURLs im (chainID l1Network)) in
                  case getSigner im web3Provider (AccountIndex 0) of
                    None \<Rightarrow> (r1, False)
                  | Some l1Signer \<Rightarrow>
                      (case getSigner im l2Provider (AccountAddress addr) of
                         None \<Rightarrow> (r1, False)
                       | Some l2Signer \<Rightarrow>
                           (setResult
                              (Connected
                                 \<lparr>l1 = \<lparr>network = l1Network, signer = l1Signer,
                                         provider = l1Provider\<rparr>,
                                  l2 = \<lparr>network = l2Network, signer = l2Signer,
                                         provider = l2Provider\<rparr>,
                                  isConnectedToArbitrum = False\<rparr>)
                              r1,
                            True)))))"

text \<open>
  The promise \<^verbatim>\<open>getL1Network(web3Provider, _selectedL2ChainId).then(...)\<close>: rejected when
  \<^verbatim>\<open>getL1Network\<close> rejects or the callback does.
\<close>

definition l1Attempt ::
  "'s externals \<Rightarrow> provider \<Rightarrow> address \<Rightarrow> chain_id \<Rightarrow> 's run \<Rightarrow> 's run \<times> bool" where
  "l1Attempt im web3Provider addr sel r =
     (case getL1Network im (sdkState r) web3Provider sel of
        None \<Rightarrow> (r, False)
      | Some l1Network \<Rightarrow> onL1Network im web3Provider addr sel l1Network r)"

text \<open>
  The callback of the outer \<^verbatim>\<open>.catch\<close>, \<^verbatim>\<open>() => { ... }\<close>. It is not declared
  \<^verbatim>\<open>async\<close>, and the statement after its test of the chain identifiers is
  \<^verbatim>\<open>await addCustomNetwork({...})\<close>: in a function that is not \<^verbatim>\<open>async\<close> this is no
  await expression, and the callback fails there. So the test runs, and when the
  identifiers agree nothing after it does: no registration, no lookup, no \<^verbatim>\<open>setResult\<close>;
  nothing catches the failure and nothing is published. The statements that follow in the
  source (the lookups on the wallet's provider and the result with
  \<^verbatim>\<open>isConnectedToArbitrum: true\<close>) are never reached.
\<close>

definition onL1Failure :: "chain_id \<Rightarrow> chain_id \<Rightarrow> 's run \<Rightarrow> 's run" where
  "onL1Failure providerChainId sel r =
     (if providerChainId \<noteq> sel then setResult NotSupported r else r)"

definition update ::
  "'s externals \<Rightarrow> chain_id option \<Rightarrow> provider \<Rightarrow> address \<Rightarrow> 's \<Rightarrow> 's run" where
  "update im selectedL2ChainId web3Provider addr s =
     (let r0 = \<lparr>published = [], registered = [], sdkState = s\<rparr> in
      case getNetwork im web3Provider of
        None \<Rightarrow> r0
      | Some providerChainId \<Rightarrow>
          (case selectedL2 im selectedL2ChainId providerChainId of
             None \<Rightarrow> setResult NotSupported r0
           | Some sel \<Rightarrow>
               (case l1Attempt im web3Provider addr sel r0 of
                  (r1, fulfilled) \<Rightarrow>
                    if fulfilled then r1
                    else onL1Failure providerChainId sel r1)))"

section \<open>The provider component as a state machine\<close>

text \<open>
  The first effect of \<^verbatim>\<open>NetworksAndSignersProvider\<close>, with dependencies
  \<^verbatim>\<open>[account, result]\<close>: back to not connected when the wallet has no account.
\<close>

definition resetEffect ::
  "address option \<Rightarrow> UseNetworksAndSignersResult \<Rightarrow> UseNetworksAndSignersResult" where
  "resetEffect account r =
     (let connected = (status r = CONNECTED) in
      if connected \<and> account = None then NotConnected else r)"

text \<open>
  The second effect, \<^verbatim>\<open>tryConnect\<close>: the argument says whether the \<^verbatim>\<open>try\<close> block
  threw (\<^verbatim>\<open>connect\<close> rejected).
\<close>

definition tryConnect :: "bool \<Rightarrow> UseNetworksAndSignersResult \<Rightarrow> UseNetworksAndSignersResult" where
  "tryConnect threw r = (if threw then NotConnected else r)"

text \<open>
  The last effect, with dependencies \<^verbatim>\<open>[provider, account, network, update]\<close>: the call
  \<^verbatim>\<open>update(provider, account)\<close> it makes, if any. An empty string is falsy as
  \<^verbatim>\<open>undefined\<close> is; the provider and the network are objects.
\<close>

definition updateEffect ::
  "provider option \<Rightarrow> address option \<Rightarrow> chain_id option \<Rightarrow> (provider \<times> address) option" where
  "updateEffect prov account net =
     (case prov of
        None \<Rightarrow> None
      | Some p \<Rightarrow>
          (case account of
             None \<Rightarrow> None
           | Some a \<Rightarrow>
               if a = [] then None
               else (case net of None \<Rightarrow> None | Some n \<Rightarrow> Some (p, a))))"

text \<open>
  The component between events: the React state \<^verbatim>\<open>result\<close>, the account of the last
  render, the calls of \<^verbatim>\<open>update\<close> that have not settled yet (oldest first), and the
  state of the network library.
\<close>

record 's machine =
  result :: UseNetworksAndSignersResult
  walletAccount :: "address option"
  inFlight :: "(provider \<times> address) list"
  library :: "'s"

datatype event =
    WalletChanged "provider option" "address option" "chain_id option"
  | ConnectSettled bool
  | UpdateSettled nat

definition mount :: "bool \<Rightarrow> 's \<Rightarrow> 's machine" where
  "mount web3Defined s =
     \<lparr>result = initialResult web3Defined, walletAccount = None, inFlight = [], library = s\<rparr>"

text \<open>
  \<^verbatim>\<open>setResult\<close> replaces the state by its argument; a settled call publishes what its
  run collected, in order, whatever has been published in between.
\<close>

definition publish ::
  "UseNetworksAndSignersResult list \<Rightarrow> UseNetworksAndSignersResult \<Rightarrow> UseNetworksAndSignersResult" where
  "publish vs r = foldl (\<lambda>old v. v) r vs"

text \<open>
  One event. \<open>WalletChanged\<close>: \<^verbatim>\<open>useWallet\<close> gives new values and the effects run;
  \<open>ConnectSettled\<close>: \<^verbatim>\<open>tryConnect\<close> ends; \<open>UpdateSettled i\<close>: the call at position
  \<open>i\<close> of the calls in flight runs to its end, and, when it published something, the
  render this causes runs the first effect again. A call is taken to make all its steps
  when it settles: the schedules in which an earlier call is slow at every \<^verbatim>\<open>await\<close>.
\<close>

fun step :: "'s externals \<Rightarrow> chain_id option \<Rightarrow> event \<Rightarrow> 's machine \<Rightarrow> 's machine" where
  "step im selectedL2ChainId (WalletChanged prov account net) m =
     m\<lparr>result := resetEffect account (result m),
       walletAccount := account,
       inFlight := inFlight m @ (case updateEffect prov account net of None \<Rightarrow> [] | Some c \<Rightarrow> [c])\<rparr>"
| "step im selectedL2ChainId (ConnectSettled threw) m =
     m\<lparr>result := tryConnect threw (result m)\<rparr>"
| "step im selectedL2ChainId (UpdateSettled i) m =
     (if i < length (inFlight m) then
        (case inFlight m ! i of
           (web3Provider, addr) \<Rightarrow>
             (let r = update im selectedL2ChainId web3Provider addr (library m) in
              m\<lparr>result :=
                  (if published r = [] then result m
                   else resetEffect (walletAccount m) (publish (published r) (result m))),
                inFlight := take i (inFlight m) @ drop (Suc i) (inFlight m),
                library := sdkState r\<rparr>))
      else m)"

fun steps :: "'s externals \<Rightarrow> chain_id option \<Rightarrow> event list \<Rightarrow> 's machine \<Rightarrow> 's machine" where
  "steps im selectedL2ChainId [] m = m"
| "steps im selectedL2ChainId (e # es) m = steps im selectedL2ChainId es (step im selectedL2ChainId e m)"

section \<open>The balance of an executed withdrawal\<close>

text \<open>
  A JavaScript value that may be \<^verbatim>\<open>null\<close> or \<^verbatim>\<open>undefined\<close>. A \<^verbatim>\<open>BigNumber\<close> is an
  object, hence truthy whatever its amount.
\<close>

datatype 'a js = Null | Undefined | Defined 'a

type_synonym BigNumber = int

record BridgeBalance =
  balance :: "BigNumber js"

record Balances =
  eth :: BridgeBalance
  erc20 :: "address \<Rightarrow> BridgeBalance option"

record ArbTokenBridge =
  balances :: "Balances option"

record MergedTransaction =
  txId :: string
  asset :: string
  tokenAddress :: "address option"

text \<open>The \<^verbatim>\<open>useMemo\<close> that computes \<^verbatim>\<open>balance\<close> in \<^verbatim>\<open>WithdrawalCardExecuted\<close>.\<close>

definition memoBalance :: "MergedTransaction \<Rightarrow> ArbTokenBridge option \<Rightarrow> BigNumber js" where
  "memoBalance tx arbTokenBridge =
     (case arbTokenBridge of
        None \<Rightarrow> Null
      | Some b \<Rightarrow>
          (case balances b of
             None \<Rightarrow> Null
           | Some bs \<Rightarrow>
               if asset tx = ''eth'' then balance (eth bs)
               else
                 (case tokenAddress tx of
                    None \<Rightarrow> Null
                  | Some t \<Rightarrow>
                      if t = [] then Null
                      else (case erc20 bs t of None \<Rightarrow> Undefined | Some e \<Rightarrow> balance e))))"

text \<open>
  What stands after \<^verbatim>\<open>New balance:\<close>: the formatted balance when \<^verbatim>\<open>balance\<close> is truthy,
  else the loader.
\<close>

datatype balance_view = BalanceText BigNumber | Loader

definition newBalance :: "BigNumber js \<Rightarrow> balance_view" where
  "newBalance b = (case b of Defined n \<Rightarrow> BalanceText n | _ \<Rightarrow> Loader)"

section \<open>The network registry of the specification\<close>

text \<open>
  \<^verbatim>\<open>addCustomNetwork\<close>, \<^verbatim>\<open>getL1Network\<close> and \<^verbatim>\<open>getL2Network\<close> come from the package
  \<^verbatim>\<open>@arbitrum/sdk\<close>, whose code the module does not contain. The definitions of this
  section follow the specification's Network Registry and Chain Resolver instead.
\<close>

datatype NetworkDescriptor = Base L1Network | Rollup L2Network

type_synonym registry = "(chain_id \<times> NetworkDescriptor) list"

text \<open>
  Modelled from the spec: the registry's insertion, missing with \<^verbatim>\<open>addCustomNetwork\<close>.
  An entry is matched by chain identifier; a present identifier has its descriptor
  overwritten, an absent one is added.
\<close>

fun upsert :: "chain_id \<Rightarrow> NetworkDescriptor \<Rightarrow> registry \<Rightarrow> registry" where
  "upsert k v [] = [(k, v)]"
| "upsert k v ((k', v') # al) = (if k = k' then (k, v) # al else (k', v') # upsert k v al)"

text \<open>
  Modelled from the spec: \<^verbatim>\<open>register(baseDescriptor, rollupDescriptor)\<close>, missing with
  \<^verbatim>\<open>addCustomNetwork\<close>; it adds the pair, each descriptor under its own identifier.
\<close>

definition register :: "L1Network \<Rightarrow> L2Network \<Rightarrow> registry \<Rightarrow> registry" where
  "register b r reg = upsert (chainID r) (Rollup r) (upsert (chainID b) (Base b) reg)"

text \<open>
  Modelled from the spec: \<^verbatim>\<open>lookupBase(id)\<close> and \<^verbatim>\<open>lookupRollup(id)\<close>, missing with the
  package; \<open>None\<close> is the failure \<^verbatim>\<open>UnknownNetwork\<close>.
\<close>

definition lookupBase :: "chain_id \<Rightarrow> registry \<Rightarrow> L1Network option" where
  "lookupBase k reg = (case map_of reg k of Some (Base b) \<Rightarrow> Some b | _ \<Rightarrow> None)"

definition lookupRollup :: "chain_id \<Rightarrow> registry \<Rightarrow> L2Network option" where
  "lookupRollup k reg = (case map_of reg k of Some (Rollup r) \<Rightarrow> Some r | _ \<Rightarrow> None)"

text \<open>
  Modelled from the spec: step 3 of the Chain Resolver, missing with \<^verbatim>\<open>getL1Network\<close>.
  The connection is a base-chain connection when the chain it reports is a known base
  descriptor that partners with the requested rollup.
\<close>

definition specGetL1Network ::
  "(provider \<Rightarrow> chain_id option) \<Rightarrow> registry \<Rightarrow> provider \<Rightarrow> chain_id \<Rightarrow> L1Network option" where
  "specGetL1Network reported reg p requested =
     (case reported p of
        None \<Rightarrow> None
      | Some c \<Rightarrow>
          (case lookupBase c reg of
             None \<Rightarrow> None
           | Some b \<Rightarrow> if requested \<in> set (partnerChainIDs b) then Some b else None))"

text \<open>
  Modelled from the spec: step 4 of the Chain Resolver, missing with \<^verbatim>\<open>getL2Network\<close>.
  The connection is a rollup-chain connection when the chain it reports is a known
  rollup descriptor.
\<close>

definition specGetL2Network ::
  "(provider \<Rightarrow> chain_id option) \<Rightarrow> registry \<Rightarrow> provider \<Rightarrow> L2Network option" where
  "specGetL2Network reported reg p =
     (case reported p of None \<Rightarrow> None | Some c \<Rightarrow> lookupRollup c reg)"

text \<open>
  Modelled from the spec: \<^verbatim>\<open>addCustomNetwork\<close>, missing with the package, as the
  registration above; it never throws.
\<close>

definition specAddCustomNetwork :: "AddCustomNetworkArgs \<Rightarrow> registry \<Rightarrow> registry \<times> bool" where
  "specAddCustomNetwork args reg = (register (customL1Network args) (customL2Network args) reg, True)"

text \<open>
  Modelled from the spec: the imports of the module with the registry above in the place
  of the missing package; the chain each provider reports, the address check and the two
  tables stay parameters.
\<close>

definition specExternals ::
  "(provider \<Rightarrow> chain_id option) \<Rightarrow> (address \<Rightarrow> address option)
   \<Rightarrow> (chain_id \<Rightarrow> chain_id option) \<Rightarrow> (chain_id \<Rightarrow> string option)
   \<Rightarrow> registry externals" where
  "specExternals reported fmt defaults urls =
     \<lparr>getNetwork = reported,
      getL1Network = specGetL1Network reported,
      getL2Network = specGetL2Network reported,
      addCustomNetwork = specAddCustomNetwork,
      formatAddress = fmt,
      chainIdToDefaultL2ChainId = defaults,
      rpcURLs = urls\<rparr>"

text \<open>
  Modelled from the spec: the invariant of the data model, which the module states
  nowhere. A pair of identifiers is supported in a registry when the base descriptor and
  the rollup descriptor are registered under them and name each other, and the endpoints
  the \<^verbatim>\<open>rpcURLs\<close> table gives for them report these chains.
\<close>

definition supportedPair ::
  "(provider \<Rightarrow> chain_id option) \<Rightarrow> (chain_id \<Rightarrow> string option) \<Rightarrow> registry
   \<Rightarrow> chain_id \<Rightarrow> chain_id \<Rightarrow> bool" where
  "supportedPair reported urls reg b r =
     (case lookupBase b reg of
        None \<Rightarrow> False
      | Some bd \<Rightarrow>
          (case lookupRollup r reg of
             None \<Rightarrow> False
           | Some rd \<Rightarrow>
               chainID bd = b \<and> r \<in> set (partnerChainIDs bd) \<and>
               chainID rd = r \<and> partnerChainID rd = b \<and>
               reported (JsonRpcProvider (urls b)) = Some b \<and>
               reported (JsonRpcProvider (urls r)) = Some r))"

text \<open>What a run published, as the status and the orientation of each result.\<close>

fun orientation :: "UseNetworksAndSignersResult \<Rightarrow> bool option" where
  "orientation (Connected c) = Some (isConnectedToArbitrum c)"
| "orientation Loading = None"
| "orientation NotConnected = None"
| "orientation NotSupported = None"

section \<open>Concrete environments\<close>

text \<open>The run \<^verbatim>\<open>update\<close> starts from.\<close>

abbreviation (input) run0 :: "'s \<Rightarrow> 's run" where
  "run0 s \<equiv> \<lparr>published = [], registered = [], sdkState = s\<rparr>"

text \<open>
  Two wallet accounts: 20-byte addresses written with decimal digits only, so that the
  checksummed form of each is the address itself.
\<close>

definition accountA :: address where
  "accountA = ''0x1111111111111111111111111111111111111111''"

definition accountB :: address where
  "accountB = ''0x2222222222222222222222222222222222222222''"

text \<open>
  The address check on the strings of that form: \<^verbatim>\<open>0x\<close> and forty decimal digits pass
  unchanged. No other string is given to it below.
\<close>

definition digitAddress :: "address \<Rightarrow> address option" where
  "digitAddress a =
     (if length a = 42 \<and> take 2 a = ''0x'' \<and> set (drop 2 a) \<subseteq> set ''0123456789''
      then Some a else None)"

text \<open>
  Imports whose answers do not depend on their arguments: every provider reports the
  chain \<open>c\<close>, the two lookups answer \<open>l1n\<close> and \<open>l2n\<close>, \<^verbatim>\<open>addCustomNetwork\<close> returns,
  and no chain has a default rollup.
\<close>

definition constExternals ::
  "chain_id \<Rightarrow> L1Network option \<Rightarrow> L2Network option \<Rightarrow> (chain_id \<Rightarrow> string option)
   \<Rightarrow> unit externals" where
  "constExternals c l1n l2n urls =
     \<lparr>getNetwork = (\<lambda>p. Some c),
      getL1Network = (\<lambda>s p r. l1n),
      getL2Network = (\<lambda>s p. l2n),
      addCustomNetwork = (\<lambda>args s. (s, True)),
      formatAddress = digitAddress,
      chainIdToDefaultL2ChainId = (\<lambda>k. None),
      rpcURLs = urls\<rparr>"

text \<open>
  Two \<^verbatim>\<open>rpcURLs\<close> tables for the local chains: one with the addresses the two local
  descriptors carry, one that spells the same two nodes differently.
\<close>

definition localURLs :: "chain_id \<Rightarrow> string option" where
  "localURLs = [1337 \<mapsto> ''http://localhost:8545'', 412346 \<mapsto> ''http://localhost:8547'']"

definition loopbackURLs :: "chain_id \<Rightarrow> string option" where
  "loopbackURLs = [1337 \<mapsto> ''http://127.0.0.1:8545'', 412346 \<mapsto> ''http://127.0.0.1:8547'']"

text \<open>A table of default rollups for the two local chains.\<close>

definition localDefaults :: "chain_id \<Rightarrow> chain_id option" where
  "localDefaults = [1337 \<mapsto> 412346, 412346 \<mapsto> 412346]"

text \<open>
  The chains the providers report when the wallet is on chain \<open>c\<close> and the two local
  nodes run.
\<close>

definition localReported :: "chain_id \<Rightarrow> provider \<Rightarrow> chain_id option" where
  "localReported c p =
     (case p of
        Web3Provider n \<Rightarrow> Some c
      | JsonRpcProvider u \<Rightarrow>
          if u = Some ''http://localhost:8545'' then Some 1337
          else if u = Some ''http://localhost:8547'' then Some 412346
          else None)"

text \<open>A registry that holds the two local descriptors.\<close>

definition seededRegistry :: registry where
  "seededRegistry = [(1337, Base ethLocal), (412346, Rollup arbLocal)]"

text \<open>
  The pairing of the two local networks for wallet \<open>0\<close> on the base chain, with the
  providers built from a table \<open>urls\<close> and the rollup signer keyed by \<open>a\<close>.
\<close>

definition basePairing ::
  "(chain_id \<Rightarrow> string option) \<Rightarrow> address \<Rightarrow> UseNetworksAndSignersConnectedResult" where
  "basePairing urls a =
     \<lparr>l1 = \<lparr>network = ethLocal,
             signer = JsonRpcSigner (Web3Provider 0) (AccountIndex 0),
             provider = JsonRpcProvider (urls 1337)\<rparr>,
      l2 = \<lparr>network = arbLocal,
             signer = JsonRpcSigner (JsonRpcProvider (urls 412346)) (AccountAddress a),
             provider = JsonRpcProvider (urls 412346)\<rparr>,
      isConnectedToArbitrum = False\<rparr>"

section \<open>Facts about one run of the resolution function\<close>

lemma registerLocal_eq:
  "registerLocal im r =
     (r\<lparr>registered := registered r @ [localNetworks],
        sdkState := fst (addCustomNetwork im localNetworks (sdkState r))\<rparr>,
      snd (addCustomNetwork im localNetworks (sdkState r)))"
  by (simp add: registerLocal_def split: prod.splits)

lemma registerLocal_simps [simp]:
  "published (fst (registerLocal im r)) = published r"
  "registered (fst (registerLocal im r)) = registered r @ [localNetworks]"
  "sdkState (fst (registerLocal im r)) = fst (addCustomNetwork im localNetworks (sdkState r))"
  "snd (registerLocal im r) = snd (addCustomNetwork im localNetworks (sdkState r))"
  by (simp_all add: registerLocal_eq)

lemma setResult_simps [simp]:
  "published (setResult v r) = published r @ [v]"
  "registered (setResult v r) = registered r"
  "sdkState (setResult v r) = sdkState r"
  by (simp_all add: setResult_def)

lemma onL1Network_registered [simp]:
  "registered (fst (onL1Network im w a sel l1n r)) = registered r @ [localNetworks]"
  by (simp add: onL1Network_def Let_def split_beta split: option.splits)

lemma onL1Network_sdkState [simp]:
  "sdkState (fst (onL1Network im w a sel l1n r)) =
     fst (addCustomNetwork im localNetworks (sdkState r))"
  by (simp add: onL1Network_def Let_def split_beta split: option.splits)

lemma onL1Network_rejected:
  "\<not> snd (onL1Network im w a sel l1n r) \<Longrightarrow>
   published (fst (onL1Network im w a sel l1n r)) = published r"
  by (simp add: onL1Network_def Let_def split_beta split: option.splits if_splits)

lemma onL1Network_fulfilled:
  "snd (onL1Network im w a sel l1n r) \<Longrightarrow>
   \<exists>l2n s1 s2.
     getL2Network im (fst (addCustomNetwork im localNetworks (sdkState r)))
        (JsonRpcProvider (rpcURLs im sel)) = Some l2n
     \<and> getSigner im w (AccountIndex 0) = Some s1
     \<and> getSigner im (JsonRpcProvider (rpcURLs im sel)) (AccountAddress a) = Some s2
     \<and> published (fst (onL1Network im w a sel l1n r)) =
         published r @
           [Connected
              \<lparr>l1 = \<lparr>network = l1n, signer = s1,
                      provider = JsonRpcProvider (rpcURLs im (chainID l1n))\<rparr>,
               l2 = \<lparr>network = l2n, signer = s2,
                      provider = JsonRpcProvider (rpcURLs im sel)\<rparr>,
               isConnectedToArbitrum = False\<rparr>]"
  by (simp add: onL1Network_def Let_def split_beta split: option.splits if_splits)

lemma l1Attempt_registered:
  "registered (fst (l1Attempt im w a sel r)) =
     registered r @ (if getL1Network im (sdkState r) w sel = None then [] else [localNetworks])"
  by (simp add: l1Attempt_def split: option.splits)

lemma l1Attempt_sdkState:
  "sdkState (fst (l1Attempt im w a sel r)) =
     (if getL1Network im (sdkState r) w sel = None then sdkState r
      else fst (addCustomNetwork im localNetworks (sdkState r)))"
  by (simp add: l1Attempt_def split: option.splits)

lemma l1Attempt_no_base:
  "getL1Network im (sdkState r) w sel = None \<Longrightarrow> l1Attempt im w a sel r = (r, False)"
  by (simp add: l1Attempt_def)

lemma l1Attempt_rejected:
  "\<not> snd (l1Attempt im w a sel r) \<Longrightarrow> published (fst (l1Attempt im w a sel r)) = published r"
  by (simp add: l1Attempt_def onL1Network_rejected split: option.splits)

lemma l1Attempt_fulfilled:
  assumes "snd (l1Attempt im w a sel r)"
  shows "\<exists>l1n l2n s1 s2.
     getL1Network im (sdkState r) w sel = Some l1n
     \<and> getL2Network im (fst (addCustomNetwork im localNetworks (sdkState r)))
        (JsonRpcProvider (rpcURLs im sel)) = Some l2n
     \<and> getSigner im w (AccountIndex 0) = Some s1
     \<and> getSigner im (JsonRpcProvider (rpcURLs im sel)) (AccountAddress a) = Some s2
     \<and> published (fst (l1Attempt im w a sel r)) =
         published r @
           [Connected
              \<lparr>l1 = \<lparr>network = l1n, signer = s1,
                      provider = JsonRpcProvider (rpcURLs im (chainID l1n))\<rparr>,
               l2 = \<lparr>network = l2n, signer = s2,
                      provider = JsonRpcProvider (rpcURLs im sel)\<rparr>,
               isConnectedToArbitrum = False\<rparr>]"
proof (cases "getL1Network im (sdkState r) w sel")
  case None
  with assms show ?thesis by (simp add: l1Attempt_def)
next
  case (Some l1n)
  with assms have "snd (onL1Network im w a sel l1n r)" by (simp add: l1Attempt_def)
  from onL1Network_fulfilled [OF this] Some show ?thesis by (simp add: l1Attempt_def)
qed

lemma onL1Failure_simps [simp]:
  "registered (onL1Failure c sel r) = registered r"
  "sdkState (onL1Failure c sel r) = sdkState r"
  "published (onL1Failure c sel r) = published r @ (if c \<noteq> sel then [NotSupported] else [])"
  by (simp_all add: onL1Failure_def)

lemma update_no_network:
  "getNetwork im w = None \<Longrightarrow> update im sel w a s = run0 s"
  by (simp add: update_def)

lemma update_no_selection:
  "getNetwork im w = Some c \<Longrightarrow> selectedL2 im sel c = None \<Longrightarrow>
   update im sel w a s = setResult NotSupported (run0 s)"
  by (simp add: update_def)

lemma update_fulfilled:
  "getNetwork im w = Some c \<Longrightarrow> selectedL2 im sel c = Some r \<Longrightarrow>
   snd (l1Attempt im w a r (run0 s)) \<Longrightarrow>
   update im sel w a s = fst (l1Attempt im w a r (run0 s))"
  by (simp add: update_def split_beta)

lemma update_rejected:
  "getNetwork im w = Some c \<Longrightarrow> selectedL2 im sel c = Some r \<Longrightarrow>
   \<not> snd (l1Attempt im w a r (run0 s)) \<Longrightarrow>
   update im sel w a s = onL1Failure c r (fst (l1Attempt im w a r (run0 s)))"
  by (simp add: update_def split_beta)

lemma update_fulfilled_published:
  assumes "getNetwork im w = Some c" "selectedL2 im sel c = Some r"
    "snd (l1Attempt im w a r (run0 s))"
  shows "\<exists>l1n l2n s1 s2.
     getL1Network im s w r = Some l1n
     \<and> getL2Network im (fst (addCustomNetwork im localNetworks s))
        (JsonRpcProvider (rpcURLs im r)) = Some l2n
     \<and> getSigner im w (AccountIndex 0) = Some s1
     \<and> getSigner im (JsonRpcProvider (rpcURLs im r)) (AccountAddress a) = Some s2
     \<and> published (update im sel w a s) =
         [Connected
            \<lparr>l1 = \<lparr>network = l1n, signer = s1,
                    provider = JsonRpcProvider (rpcURLs im (chainID l1n))\<rparr>,
             l2 = \<lparr>network = l2n, signer = s2,
                    provider = JsonRpcProvider (rpcURLs im r)\<rparr>,
             isConnectedToArbitrum = False\<rparr>]"
  using l1Attempt_fulfilled [OF assms(3)] update_fulfilled [OF assms] by simp

lemma update_rejected_published:
  assumes "getNetwork im w = Some c" "selectedL2 im sel c = Some r"
    "\<not> snd (l1Attempt im w a r (run0 s))"
  shows "published (update im sel w a s) = (if c \<noteq> r then [NotSupported] else [])"
  using l1Attempt_rejected [OF assms(3)] update_rejected [OF assms] by simp

lemma update_published_cases:
  "published (update im sel w a s) = [] \<or> published (update im sel w a s) = [NotSupported]
   \<or> (\<exists>x. published (update im sel w a s) = [Connected x] \<and> \<not> isConnectedToArbitrum x)"
proof (cases "getNetwork im w")
  case None
  then show ?thesis by (simp add: update_no_network)
next
  case (Some c)
  show ?thesis
  proof (cases "selectedL2 im sel c")
    case None
    with Some show ?thesis by (simp add: update_no_selection)
  next
    case (Some r)
    show ?thesis
    proof (cases "snd (l1Attempt im w a r (run0 s))")
      case True
      from update_fulfilled_published [OF \<open>getNetwork im w = Some c\<close> Some True]
      show ?thesis by auto
    next
      case False
      from update_rejected_published [OF \<open>getNetwork im w = Some c\<close> Some False]
      show ?thesis by simp
    qed
  qed
qed

lemma update_registration:
  "sdkState (update im sel w a s) = s \<and> registered (update im sel w a s) = []
   \<or> sdkState (update im sel w a s) = fst (addCustomNetwork im localNetworks s)
      \<and> registered (update im sel w a s) = [localNetworks]"
proof (cases "getNetwork im w")
  case None
  then show ?thesis by (simp add: update_no_network)
next
  case (Some c)
  show ?thesis
  proof (cases "selectedL2 im sel c")
    case None
    with Some show ?thesis by (simp add: update_no_selection)
  next
    case (Some r)
    show ?thesis
    proof (cases "snd (l1Attempt im w a r (run0 s))")
      case True
      from update_fulfilled [OF \<open>getNetwork im w = Some c\<close> Some True]
      show ?thesis by (simp add: l1Attempt_registered l1Attempt_sdkState)
    next
      case False
      from update_rejected [OF \<open>getNetwork im w = Some c\<close> Some False]
      show ?thesis by (simp add: l1Attempt_registered l1Attempt_sdkState)
    qed
  qed
qed

lemma update_base_registration:
  assumes "getNetwork im w = Some c" "selectedL2 im sel c = Some r"
    "getL1Network im s w r \<noteq> None"
  shows "sdkState (update im sel w a s) = fst (addCustomNetwork im localNetworks s)
       \<and> registered (update im sel w a s) = [localNetworks]"
proof (cases "snd (l1Attempt im w a r (run0 s))")
  case True
  from update_fulfilled [OF assms(1,2) True] assms(3)
  show ?thesis by (auto simp add: l1Attempt_registered l1Attempt_sdkState)
next
  case False
  from update_rejected [OF assms(1,2) False] assms(3)
  show ?thesis by (auto simp add: l1Attempt_registered l1Attempt_sdkState)
qed

lemma update_no_base:
  assumes "getNetwork im w = Some c" "selectedL2 im sel c = Some r"
    "getL1Network im s w r = None"
  shows "update im sel w a s = onL1Failure c r (run0 s)"
proof -
  have "l1Attempt im w a r (run0 s) = (run0 s, False)"
    using assms(3) by (simp add: l1Attempt_no_base)
  with update_rejected [OF assms(1,2), of a s] show ?thesis by simp
qed

lemma selectedL2_cases:
  "sel = Some r \<or> (sel = None \<and> chainIdToDefaultL2ChainId im c = Some r) \<Longrightarrow>
   selectedL2 im sel c = Some r"
  by (auto simp: selectedL2_def)

subsection \<open>Runs in the concrete environments\<close>

lemma local_ids [simp]:
  "chainID ethLocal = 1337" "partnerChainIDs ethLocal = [412346]"
  "chainID arbLocal = 412346" "partnerChainID arbLocal = 1337"
  "rpcURL ethLocal = ''http://localhost:8545''" "rpcURL arbLocal = ''http://localhost:8547''"
  by (simp_all add: ethLocal_def arbLocal_def)

lemma digitAddress_accounts [simp]:
  "digitAddress accountA = Some accountA" "digitAddress accountB = Some accountB"
  by (simp_all add: digitAddress_def accountA_def accountB_def)

lemma accounts_differ [simp]: "accountA \<noteq> accountB"
  by (simp add: accountA_def accountB_def)

lemma constExternals_simps [simp]:
  "getNetwork (constExternals c l1n l2n urls) p = Some c"
  "getL1Network (constExternals c l1n l2n urls) s p r = l1n"
  "getL2Network (constExternals c l1n l2n urls) s p = l2n"
  "addCustomNetwork (constExternals c l1n l2n urls) args s = (s, True)"
  "formatAddress (constExternals c l1n l2n urls) = digitAddress"
  "chainIdToDefaultL2ChainId (constExternals c l1n l2n urls) k = None"
  "rpcURLs (constExternals c l1n l2n urls) = urls"
  by (simp_all add: constExternals_def)

lemma update_const_base:
  assumes "digitAddress a = Some a'"
  shows "update (constExternals c (Some l1n) (Some l2n) urls) (Some r) w a () =
     \<lparr>published =
        [Connected
          \<lparr>l1 = \<lparr>network = l1n, signer = JsonRpcSigner w (AccountIndex 0),
                  provider = JsonRpcProvider (urls (chainID l1n))\<rparr>,
           l2 = \<lparr>network = l2n,
                  signer = JsonRpcSigner (JsonRpcProvider (urls r)) (AccountAddress a'),
                  provider = JsonRpcProvider (urls r)\<rparr>,
           isConnectedToArbitrum = False\<rparr>],
      registered = [localNetworks], sdkState = ()\<rparr>"
  using assms
  by (simp add: update_def selectedL2_def l1Attempt_def onL1Network_def registerLocal_def
      setResult_def Let_def)

lemma update_local_base:
  assumes "digitAddress a = Some a"
  shows "update (constExternals 1337 (Some ethLocal) (Some arbLocal) urls) (Some 412346)
      (Web3Provider 0) a s =
     \<lparr>published = [Connected (basePairing urls a)], registered = [localNetworks], sdkState = ()\<rparr>"
  using update_const_base [OF assms]
  by (cases s) (simp add: basePairing_def)

text \<open>
  A string that is no address: \<^verbatim>\<open>getSigner\<close> throws in the callback, the promise is
  rejected, and the wallet on the base chain gets \<^verbatim>\<open>not_supported\<close>.
\<close>

lemma update_malformed_account:
  "update (constExternals 1337 (Some ethLocal) (Some arbLocal) urls) (Some 412346)
      (Web3Provider 0) ''0xA'' () =
     \<lparr>published = [NotSupported], registered = [localNetworks], sdkState = ()\<rparr>"
  by (simp add: update_def selectedL2_def l1Attempt_def onL1Network_def registerLocal_def
      onL1Failure_def setResult_def digitAddress_def Let_def)

section \<open>Facts about the state machine\<close>

lemma status_initialResult: "status (initialResult w) = defaultStatus w"
  by (simp add: initialResult_def defaultStatus_def)

lemma publish_last: "vs \<noteq> [] \<Longrightarrow> publish vs r = last vs"
  by (induction vs arbitrary: r) (auto simp: publish_def)

lemma publish_update_status:
  assumes "status (publish (published (update im sel w a s)) r) = NOT_CONNECTED"
  shows "status r = NOT_CONNECTED"
  using assms update_published_cases [of im sel w a s]
  by (auto simp: publish_def)

lemma step_settled:
  assumes "i < length (inFlight m)" and "inFlight m ! i = (w, a)"
  shows "inFlight (step im sel (UpdateSettled i) m) = take i (inFlight m) @ drop (Suc i) (inFlight m)"
    and "library (step im sel (UpdateSettled i) m) = sdkState (update im sel w a (library m))"
    and "walletAccount (step im sel (UpdateSettled i) m) = walletAccount m"
    and "published (update im sel w a (library m)) \<noteq> [] \<Longrightarrow>
         result (step im sel (UpdateSettled i) m) =
           resetEffect (walletAccount m)
             (publish (published (update im sel w a (library m))) (result m))"
  using assms by (simp_all add: Let_def)

section \<open>Facts about the registry of the specification\<close>

lemma upsert_upsert: "upsert k v (upsert k v' al) = upsert k v al"
  by (induction al) auto

lemma map_of_upsert: "map_of (upsert k v al) = (map_of al)(k \<mapsto> v)"
  by (induction al) auto

lemma upsert_present: "map_of al k = Some v \<Longrightarrow> upsert k v al = al"
  by (induction al) (auto split: if_splits)

lemma keys_upsert:
  "map fst (upsert k v al) = (if k \<in> fst ` set al then map fst al else map fst al @ [k])"
  by (induction al) force+

lemma distinct_upsert: "distinct (map fst al) \<Longrightarrow> distinct (map fst (upsert k v al))"
  by (simp add: keys_upsert)

lemma map_of_register:
  "map_of (register b r reg) = (map_of reg)(chainID b \<mapsto> Base b, chainID r \<mapsto> Rollup r)"
  by (simp add: register_def map_of_upsert)

lemma register_register: "register b r (register b r reg) = register b r reg"
proof (cases "chainID b = chainID r")
  case True
  then show ?thesis by (simp add: register_def upsert_upsert)
next
  case False
  let ?reg = "upsert (chainID r) (Rollup r) (upsert (chainID b) (Base b) reg)"
  have "map_of ?reg (chainID b) = Some (Base b)"
    using False by (simp add: map_of_upsert)
  then have "upsert (chainID b) (Base b) ?reg = ?reg" by (rule upsert_present)
  moreover have "upsert (chainID r) (Rollup r) ?reg = ?reg"
    by (rule upsert_present) (simp add: map_of_upsert)
  ultimately show ?thesis by (simp add: register_def)
qed

lemma specExternals_simps [simp]:
  "getNetwork (specExternals reported fmt defaults urls) = reported"
  "getL1Network (specExternals reported fmt defaults urls) = specGetL1Network reported"
  "getL2Network (specExternals reported fmt defaults urls) = specGetL2Network reported"
  "addCustomNetwork (specExternals reported fmt defaults urls) = specAddCustomNetwork"
  "formatAddress (specExternals reported fmt defaults urls) = fmt"
  "chainIdToDefaultL2ChainId (specExternals reported fmt defaults urls) = defaults"
  "rpcURLs (specExternals reported fmt defaults urls) = urls"
  by (simp_all add: specExternals_def)

lemma specAddCustomNetwork_local:
  "specAddCustomNetwork localNetworks reg = (register ethLocal arbLocal reg, True)"
  by (simp add: specAddCustomNetwork_def localNetworks_def)

lemma register_seeded: "register ethLocal arbLocal seededRegistry = seededRegistry"
  by (simp add: register_def seededRegistry_def)

lemma register_base_only: "register ethLocal arbLocal [(1337, Base ethLocal)] = seededRegistry"
  by (simp add: register_def seededRegistry_def)

lemma supportedPair_seeded: "supportedPair (localReported c) localURLs seededRegistry 1337 412346"
  by (simp add: supportedPair_def lookupBase_def lookupRollup_def seededRegistry_def
      localReported_def localURLs_def)

lemma lookups_seeded [simp]:
  "lookupBase 1337 seededRegistry = Some ethLocal"
  "lookupRollup 412346 seededRegistry = Some arbLocal"
  "lookupBase 412346 seededRegistry = None"
  by (simp_all add: lookupBase_def lookupRollup_def seededRegistry_def)

lemma localReported_wallet [simp]: "localReported c (Web3Provider n) = Some c"
  by (simp add: localReported_def)

lemma localDefaults_simps [simp]:
  "localDefaults 1337 = Some 412346" "localDefaults 412346 = Some 412346"
  "localDefaults 999999 = None"
  by (simp_all add: localDefaults_def)

text \<open>
  A run of \<^verbatim>\<open>update\<close> on the registry of the specification: the wallet on the base
  chain 1337, with no rollup requested and the base descriptor registered only.
\<close>

lemma spec_run_on_base:
  "update (specExternals (localReported 1337) digitAddress localDefaults localURLs) None
      (Web3Provider 0) accountA [(1337, Base ethLocal)] =
     \<lparr>published = [Connected (basePairing localURLs accountA)],
      registered = [localNetworks], sdkState = seededRegistry\<rparr>"
  by (simp add: update_def selectedL2_def l1Attempt_def onL1Network_def registerLocal_eq
      specAddCustomNetwork_local register_base_only specGetL1Network_def specGetL2Network_def
      lookupBase_def lookupRollup_def seededRegistry_def localReported_def localURLs_def
      basePairing_def Let_def)

section \<open>The claims\<close>

subsection \<open>C1: a resolution that settles late\<close>

text \<open>
  C1 says that when resolution A is started, resolution B is started before A completes,
  and A completes after B, the published result is B's, the stale completion being
  discarded. The module tags no call of \<^verbatim>\<open>update\<close> and every \<^verbatim>\<open>setResult\<close> in it is
  unconditional. What holds instead: when the call A and then the call B are started,
  B settles and then A settles, and A's run publishes something, the published result is
  the last result of A's run: the call that settles last wins.
\<close>

theorem last_settled_wins:
  assumes "updateEffect pA aA nA = Some (wA, addrA)" and "updateEffect pB aB nB = Some (wB, addrB)"
    and "published (update im sel wA addrA
            (sdkState (update im sel wB addrB (library m)))) \<noteq> []"
  shows "result (steps im sel [WalletChanged pA aA nA, WalletChanged pB aB nB,
                               UpdateSettled (Suc (length (inFlight m))),
                               UpdateSettled (length (inFlight m))] m)
         = last (published (update im sel wA addrA
              (sdkState (update im sel wB addrB (library m)))))"
proof -
  define n where "n = length (inFlight m)"
  define m2 where
    "m2 = step im sel (WalletChanged pB aB nB) (step im sel (WalletChanged pA aA nA) m)"
  define m3 where "m3 = step im sel (UpdateSettled (Suc n)) m2"
  define m4 where "m4 = step im sel (UpdateSettled n) m3"
  from assms(2) have acc: "aB \<noteq> None" by (auto simp: updateEffect_def split: option.splits)
  have m2: "inFlight m2 = inFlight m @ [(wA, addrA), (wB, addrB)]" "library m2 = library m"
    "walletAccount m2 = aB"
    using assms(1,2) by (simp_all add: m2_def)
  have b: "Suc n < length (inFlight m2)" "inFlight m2 ! Suc n = (wB, addrB)"
    by (simp_all add: m2 n_def nth_append)
  have m3: "inFlight m3 = inFlight m @ [(wA, addrA)]"
    "library m3 = sdkState (update im sel wB addrB (library m))"
    "walletAccount m3 = aB"
    using step_settled(1-3) [OF b, of im sel] by (simp_all add: m3_def m2 n_def)
  have a: "n < length (inFlight m3)" "inFlight m3 ! n = (wA, addrA)"
    by (simp_all add: m3 n_def nth_append)
  have "result m4 = resetEffect aB
      (publish (published (update im sel wA addrA
         (sdkState (update im sel wB addrB (library m))))) (result m3))"
    using step_settled(4) [OF a, of im sel] assms(3) by (simp add: m4_def m3)
  with acc assms(3) have "result m4 = last (published (update im sel wA addrA
              (sdkState (update im sel wB addrB (library m)))))"
    by (auto simp add: publish_last resetEffect_def)
  moreover have "steps im sel [WalletChanged pA aA nA, WalletChanged pB aB nB,
                               UpdateSettled (Suc (length (inFlight m))),
                               UpdateSettled (length (inFlight m))] m = m4"
    by (simp only: steps.simps m4_def m3_def m2_def n_def)
  ultimately show ?thesis by simp
qed

text \<open>
  The wallet switches from the account \<open>accountA\<close> to the account \<open>accountB\<close> while the
  first resolution is in flight, and the first resolution settles last: the component ends
  with the pairing whose rollup signer is keyed by \<open>accountA\<close>, not with the one the
  second resolution published. Both accounts pass the address check, so both runs reach
  their \<^verbatim>\<open>setResult\<close>.
\<close>

theorem stale_result_counterexample:
  "result (steps (constExternals 1337 (Some ethLocal) (Some arbLocal) localURLs) (Some 412346)
      [WalletChanged (Some (Web3Provider 0)) (Some accountA) (Some 1337),
       WalletChanged (Some (Web3Provider 0)) (Some accountB) (Some 1337),
       UpdateSettled 1, UpdateSettled 0] (mount True ()))
    = Connected (basePairing localURLs accountA)
   \<and> published (update (constExternals 1337 (Some ethLocal) (Some arbLocal) localURLs)
           (Some 412346) (Web3Provider 0) accountB ())
    = [Connected (basePairing localURLs accountB)]
   \<and> basePairing localURLs accountA \<noteq> basePairing localURLs accountB
   \<and> accountA = ''0x1111111111111111111111111111111111111111''
   \<and> accountB = ''0x2222222222222222222222222222222222222222''"
proof -
  have ne: "accountA \<noteq> []" "accountB \<noteq> []" by (simp_all add: accountA_def accountB_def)
  have "basePairing localURLs accountA \<noteq> basePairing localURLs accountB"
    by (simp add: basePairing_def)
  moreover have "accountA = ''0x1111111111111111111111111111111111111111''"
    "accountB = ''0x2222222222222222222222222222222222222222''"
    by (simp_all only: accountA_def accountB_def)
  ultimately show ?thesis
    using ne
    by (simp add: update_local_base mount_def initialResult_def resetEffect_def updateEffect_def
        publish_def)
qed

theorem last_settled_wins_witness:
  "updateEffect (Some (Web3Provider 0)) (Some accountA) (Some 1337) = Some (Web3Provider 0, accountA)
   \<and> updateEffect (Some (Web3Provider 0)) (Some accountB) (Some 1337) = Some (Web3Provider 0, accountB)
   \<and> result (steps (constExternals 1337 (Some ethLocal) (Some arbLocal) localURLs) (Some 412346)
      [WalletChanged (Some (Web3Provider 0)) (Some accountA) (Some 1337),
       WalletChanged (Some (Web3Provider 0)) (Some accountB) (Some 1337),
       UpdateSettled 1, UpdateSettled 0] (mount True ()))
    = Connected (basePairing localURLs accountA)"
proof -
  let ?im = "constExternals 1337 (Some ethLocal) (Some arbLocal) localURLs"
  have ne: "accountA \<noteq> []" "accountB \<noteq> []" by (simp_all add: accountA_def accountB_def)
  have a: "updateEffect (Some (Web3Provider 0)) (Some accountA) (Some 1337)
      = Some (Web3Provider 0, accountA)"
    and b: "updateEffect (Some (Web3Provider 0)) (Some accountB) (Some 1337)
      = Some (Web3Provider 0, accountB)"
    using ne by (simp_all add: updateEffect_def)
  have c: "length (inFlight (mount True ())) = 0" by (simp add: mount_def)
  have d: "published (update ?im (Some 412346) (Web3Provider 0) accountA
            (sdkState (update ?im (Some 412346) (Web3Provider 0) accountB
               (library (mount True ()))))) \<noteq> []"
    by (simp add: update_local_base)
  have e: "last (published (update ?im (Some 412346) (Web3Provider 0) accountA
            (sdkState (update ?im (Some 412346) (Web3Provider 0) accountB
               (library (mount True ()))))))
      = Connected (basePairing localURLs accountA)"
    by (simp add: update_local_base)
  from last_settled_wins [OF a b d] a b c e show ?thesis
    by (simp del: steps.simps step.simps)
qed

subsection \<open>C2: the orientation of a resolved wallet\<close>

text \<open>
  C2 names three cases. Let the wallet's provider report the chain \<open>c\<close>, and let the
  requested rollup be the property or, without one, the default of \<open>c\<close>.
  \<^item> The wallet on the base chain: when the promise of \<^verbatim>\<open>getL1Network\<close> and its callback
    is fulfilled for the requested rollup \<open>r\<close>, the run publishes exactly one result,
    connected with \<^verbatim>\<open>isConnectedToArbitrum = false\<close>.
  \<^item> The wallet on the rollup: when the requested rollup is \<open>c\<close> itself and
    \<^verbatim>\<open>getL1Network\<close> rejects, the claim asks for a connected result with
    \<^verbatim>\<open>isConnectedToArbitrum = true\<close>. The run publishes nothing, registers nothing and
    leaves the network library as it was: the callback of \<^verbatim>\<open>.catch\<close> fails at its
    \<^verbatim>\<open>await\<close>. No run of \<^verbatim>\<open>update\<close> publishes a result with
    \<^verbatim>\<open>isConnectedToArbitrum = true\<close>.
  \<^item> Any other chain: when \<open>c\<close> has no requested rollup, or the promise is rejected and
    \<open>c\<close> differs from the requested rollup, the run publishes exactly
    \<^verbatim>\<open>not_supported\<close>.
\<close>

theorem rollup_orientation_unreached:
  "(getNetwork im w = Some c
      \<and> (sel = Some r \<or> (sel = None \<and> chainIdToDefaultL2ChainId im c = Some r))
      \<and> snd (l1Attempt im w a r \<lparr>published = [], registered = [], sdkState = s\<rparr>)
    \<longrightarrow> map (\<lambda>v. (status v, orientation v)) (published (update im sel w a s))
        = [(CONNECTED, Some False)])
   \<and> (getNetwork im w = Some c
      \<and> (sel = Some c \<or> (sel = None \<and> chainIdToDefaultL2ChainId im c = Some c))
      \<and> getL1Network im s w c = None
    \<longrightarrow> update im sel w a s = \<lparr>published = [], registered = [], sdkState = s\<rparr>)
   \<and> (getNetwork im w = Some c
      \<and> ((sel = None \<and> chainIdToDefaultL2ChainId im c = None)
         \<or> ((sel = Some r \<or> (sel = None \<and> chainIdToDefaultL2ChainId im c = Some r))
             \<and> c \<noteq> r
             \<and> \<not> snd (l1Attempt im w a r \<lparr>published = [], registered = [], sdkState = s\<rparr>)))
    \<longrightarrow> published (update im sel w a s) = [NotSupported])
   \<and> (\<forall>v \<in> set (published (update im sel w a s)). orientation v \<noteq> Some True)"
proof -
  have base: "map (\<lambda>v. (status v, orientation v)) (published (update im sel w a s))
        = [(CONNECTED, Some False)]"
    if h: "getNetwork im w = Some c"
      "sel = Some r \<or> (sel = None \<and> chainIdToDefaultL2ChainId im c = Some r)"
      "snd (l1Attempt im w a r (run0 s))"
  proof -
    from h(2) have "selectedL2 im sel c = Some r" by (rule selectedL2_cases)
    from update_fulfilled_published [OF h(1) this h(3)] show ?thesis by auto
  qed
  have rollup: "update im sel w a s = run0 s"
    if h: "getNetwork im w = Some c"
      "sel = Some c \<or> (sel = None \<and> chainIdToDefaultL2ChainId im c = Some c)"
      "getL1Network im s w c = None"
  proof -
    from h(2) have "selectedL2 im sel c = Some c" by (rule selectedL2_cases)
    from update_no_base [OF h(1) this h(3)] show ?thesis by (simp add: onL1Failure_def)
  qed
  have other: "published (update im sel w a s) = [NotSupported]"
    if h: "getNetwork im w = Some c"
      "(sel = None \<and> chainIdToDefaultL2ChainId im c = None)
         \<or> ((sel = Some r \<or> (sel = None \<and> chainIdToDefaultL2ChainId im c = Some r))
             \<and> c \<noteq> r \<and> \<not> snd (l1Attempt im w a r (run0 s)))"
    using h(2)
  proof
    assume "sel = None \<and> chainIdToDefaultL2ChainId im c = None"
    then have "selectedL2 im sel c = None" by (simp add: selectedL2_def)
    with h(1) show ?thesis by (simp add: update_no_selection)
  next
    assume k: "(sel = Some r \<or> (sel = None \<and> chainIdToDefaultL2ChainId im c = Some r))
             \<and> c \<noteq> r \<and> \<not> snd (l1Attempt im w a r (run0 s))"
    then have "selectedL2 im sel c = Some r" by (blast intro: selectedL2_cases)
    from update_rejected_published [OF h(1) this] k show ?thesis by simp
  qed
  have never: "\<forall>v \<in> set (published (update im sel w a s)). orientation v \<noteq> Some True"
    using update_published_cases [of im sel w a s] by auto
  show ?thesis
    by (intro conjI impI never; elim conjE; (erule (2) base | erule (2) rollup | erule (1) other))
qed

text \<open>
  The registry seeded with the two local descriptors, no rollup requested and the
  defaults of the two local chains. The pair (1337, 412346) is supported, and the
  wallet's provider on the chain 412346 is a rollup-chain connection by the lookup of the
  specification; the run publishes nothing. The wallet on the base chain 1337 gets its
  connected result, the wallet on the chain 999999 gets \<^verbatim>\<open>not_supported\<close>.
\<close>

theorem rollup_orientation_unreached_witness:
  "supportedPair (localReported 412346) localURLs seededRegistry 1337 412346
   \<and> specGetL2Network (localReported 412346) seededRegistry (Web3Provider 0) = Some arbLocal
   \<and> update (specExternals (localReported 412346) digitAddress localDefaults localURLs) None
        (Web3Provider 0) accountA seededRegistry
      = \<lparr>published = [], registered = [], sdkState = seededRegistry\<rparr>
   \<and> map (\<lambda>v. (status v, orientation v))
        (published (update (specExternals (localReported 1337) digitAddress localDefaults localURLs)
           None (Web3Provider 0) accountA seededRegistry))
      = [(CONNECTED, Some False)]
   \<and> published (update (specExternals (localReported 999999) digitAddress localDefaults localURLs)
        None (Web3Provider 0) accountA seededRegistry)
      = [NotSupported]"
proof -
  let ?im = "\<lambda>c. specExternals (localReported c) digitAddress localDefaults localURLs"
  have l2: "specGetL2Network (localReported 412346) seededRegistry (Web3Provider 0) = Some arbLocal"
    by (simp add: specGetL2Network_def)
  have nb: "getL1Network (?im 412346) seededRegistry (Web3Provider 0) 412346 = None"
    by (simp add: specGetL1Network_def)
  have ok: "snd (l1Attempt (?im 1337) (Web3Provider 0) accountA 412346
      \<lparr>published = [], registered = [], sdkState = seededRegistry\<rparr>)"
    by (simp add: l1Attempt_def onL1Network_def registerLocal_eq specAddCustomNetwork_local
        register_seeded specGetL1Network_def specGetL2Network_def localReported_def
        localURLs_def Let_def)
  from rollup_orientation_unreached
         [where im="?im 412346" and w="Web3Provider 0" and c=412346 and sel=None
            and a=accountA and s=seededRegistry]
    nb
  have 1: "update (?im 412346) None (Web3Provider 0) accountA seededRegistry
      = \<lparr>published = [], registered = [], sdkState = seededRegistry\<rparr>"
    by simp
  from rollup_orientation_unreached
         [where im="?im 1337" and w="Web3Provider 0" and c=1337 and sel=None and r=412346
            and a=accountA and s=seededRegistry]
    ok
  have 2: "map (\<lambda>v. (status v, orientation v))
        (published (update (?im 1337) None (Web3Provider 0) accountA seededRegistry))
      = [(CONNECTED, Some False)]"
    by simp
  from rollup_orientation_unreached
         [where im="?im 999999" and w="Web3Provider 0" and c=999999 and sel=None
            and a=accountA and s=seededRegistry]
  have 3: "published (update (?im 999999) None (Web3Provider 0) accountA seededRegistry)
      = [NotSupported]"
    by simp
  from supportedPair_seeded [of 412346] l2 1 2 3 show ?thesis by blast
qed

subsection \<open>C3: the rollup interpretation needs the requested identifier\<close>

text \<open>
  C3: let the wallet's provider report the chain \<open>c\<close>, let \<open>r\<close> be the requested rollup
  and let the base-chain interpretation fail (the promise of \<^verbatim>\<open>getL1Network\<close> and its
  callback rejects). If \<open>c\<close> differs from \<open>r\<close>, the run publishes \<^verbatim>\<open>not_supported\<close> and
  nothing else; and whenever the run publishes a connected result, that result is
  oriented on the rollup and \<open>c\<close> equals \<open>r\<close>.
\<close>

theorem rollup_requires_equal_id:
  assumes "getNetwork im w = Some c" and "selectedL2 im sel c = Some r"
    and "\<not> snd (l1Attempt im w a r \<lparr>published = [], registered = [], sdkState = s\<rparr>)"
  shows "(c \<noteq> r \<longrightarrow> published (update im sel w a s) = [NotSupported])
       \<and> (\<forall>x. Connected x \<in> set (published (update im sel w a s))
              \<longrightarrow> isConnectedToArbitrum x \<and> c = r)"
  using update_rejected_published [OF assms]
  by auto

text \<open>The wallet on the rollup 412346 while the rollup 777 is requested.\<close>

theorem rollup_requires_equal_id_witness:
  "getNetwork (constExternals 412346 None (Some arbLocal) localURLs) (Web3Provider 0) = Some 412346
   \<and> selectedL2 (constExternals 412346 None (Some arbLocal) localURLs) (Some 777) 412346 = Some 777
   \<and> \<not> snd (l1Attempt (constExternals 412346 None (Some arbLocal) localURLs) (Web3Provider 0)
          accountA 777 \<lparr>published = [], registered = [], sdkState = ()\<rparr>)
   \<and> published (update (constExternals 412346 None (Some arbLocal) localURLs) (Some 777)
        (Web3Provider 0) accountA ()) = [NotSupported]"
proof -
  let ?im = "constExternals 412346 None (Some arbLocal) localURLs"
  have a: "getNetwork ?im (Web3Provider 0) = Some 412346" by simp
  have b: "selectedL2 ?im (Some 777) 412346 = Some 777" by (simp add: selectedL2_def)
  have c: "\<not> snd (l1Attempt ?im (Web3Provider 0) accountA 777
          \<lparr>published = [], registered = [], sdkState = ()\<rparr>)"
    by (simp add: l1Attempt_def)
  from rollup_requires_equal_id [OF a b c] a b c show ?thesis by simp
qed

subsection \<open>C4: registration is idempotent\<close>

text \<open>
  C4, on the registry of the specification (\<^verbatim>\<open>addCustomNetwork\<close> is not part of the
  module): registering a pair twice gives the registry that registering it once gives;
  the second call of the registration returns as the first does, with the same registry;
  a registry with one entry per identifier keeps one entry per identifier; the entries
  under other identifiers stay as they were; and once the local networks are registered,
  a run of \<^verbatim>\<open>update\<close>, which registers them again, leaves the registry as it found it.
\<close>

theorem registration_idempotent:
  "register b r (register b r reg) = register b r reg
   \<and> specAddCustomNetwork args (fst (specAddCustomNetwork args reg)) = specAddCustomNetwork args reg
   \<and> snd (specAddCustomNetwork args reg)
   \<and> (distinct (map fst reg) \<longrightarrow> distinct (map fst (register b r reg)))
   \<and> (k \<noteq> chainID b \<and> k \<noteq> chainID r \<longrightarrow> map_of (register b r reg) k = map_of reg k)
   \<and> sdkState (update (specExternals reported fmt defaults urls) sel w a
         (register ethLocal arbLocal reg)) = register ethLocal arbLocal reg"
proof -
  have a: "specAddCustomNetwork args (fst (specAddCustomNetwork args reg))
      = specAddCustomNetwork args reg"
    by (simp add: specAddCustomNetwork_def register_register)
  have b: "snd (specAddCustomNetwork args reg)"
    by (simp add: specAddCustomNetwork_def)
  have c: "distinct (map fst reg) \<longrightarrow> distinct (map fst (register b r reg))"
    unfolding register_def by (blast intro: distinct_upsert)
  have d: "k \<noteq> chainID b \<and> k \<noteq> chainID r \<longrightarrow> map_of (register b r reg) k = map_of reg k"
    by (simp add: map_of_register)
  have e: "sdkState (update (specExternals reported fmt defaults urls) sel w a
         (register ethLocal arbLocal reg)) = register ethLocal arbLocal reg"
    using update_registration [of "specExternals reported fmt defaults urls" sel w a
        "register ethLocal arbLocal reg"]
    by (auto simp: specAddCustomNetwork_local register_register)
  from register_register [of b r reg] a b c d e show ?thesis by blast
qed

theorem registration_idempotent_witness:
  "distinct (map fst seededRegistry)
   \<and> register ethLocal arbLocal (register ethLocal arbLocal seededRegistry)
      = register ethLocal arbLocal seededRegistry
   \<and> distinct (map fst (register ethLocal arbLocal seededRegistry))
   \<and> register ethLocal arbLocal (register ethLocal arbLocal []) = seededRegistry"
proof -
  have "distinct (map fst seededRegistry)" by (simp add: seededRegistry_def)
  moreover have "register ethLocal arbLocal [] = seededRegistry"
    by (simp add: register_def seededRegistry_def)
  ultimately show ?thesis
    using registration_idempotent [of ethLocal arbLocal seededRegistry localNetworks 5]
      registration_idempotent [of ethLocal arbLocal "[]" localNetworks 5]
    by simp
qed

subsection \<open>C5: the initial status\<close>

text \<open>
  C5 says that the initial status is \<^verbatim>\<open>loading\<close> in every environment and that
  \<^verbatim>\<open>not_connected\<close> arises only once the wallet state is known. \<^verbatim>\<open>defaultStatus\<close> tests
  \<^verbatim>\<open>window.web3\<close>. What holds instead: the initial status is \<^verbatim>\<open>loading\<close> when
  \<^verbatim>\<open>window.web3\<close> is defined and \<^verbatim>\<open>not_connected\<close> when it is not; and after the start
  an event takes the status to \<^verbatim>\<open>not_connected\<close> only when it is the failure of the
  connection attempt or when the wallet has no account after it.
\<close>

theorem initial_status:
  "status (result (mount web3Defined s)) = defaultStatus web3Defined
   \<and> defaultStatus web3Defined = (if web3Defined then LOADING else NOT_CONNECTED)
   \<and> (status (result m) \<noteq> NOT_CONNECTED \<and> status (result (step im sel e m)) = NOT_CONNECTED
        \<longrightarrow> e = ConnectSettled True \<or> walletAccount (step im sel e m) = None)"
proof -
  have a: "status (result (mount web3Defined s)) = defaultStatus web3Defined"
    by (simp add: mount_def status_initialResult)
  have b: "defaultStatus web3Defined = (if web3Defined then LOADING else NOT_CONNECTED)"
    by (simp add: defaultStatus_def)
  have c: "e = ConnectSettled True \<or> walletAccount (step im sel e m) = None"
    if h: "status (result m) \<noteq> NOT_CONNECTED" "status (result (step im sel e m)) = NOT_CONNECTED"
  proof (cases e)
    case (WalletChanged p a n)
    with h show ?thesis by (auto simp: resetEffect_def Let_def split: if_splits)
  next
    case (ConnectSettled t)
    with h show ?thesis by (auto simp: tryConnect_def split: if_splits)
  next
    case (UpdateSettled i)
    with h show ?thesis
      by (auto simp: resetEffect_def Let_def split: if_splits prod.splits
          dest: publish_update_status)
  qed
  show ?thesis by (intro conjI a b impI, elim conjE, erule (1) c)
qed

text \<open>Without \<^verbatim>\<open>window.web3\<close> the component starts not connected.\<close>

theorem initial_status_counterexample:
  "defaultStatus False = NOT_CONNECTED \<and> status (result (mount False ())) \<noteq> LOADING"
  by (simp add: defaultStatus_def mount_def initialResult_def)

theorem initial_status_witness:
  "status (result (mount True ())) = LOADING
   \<and> status (result (mount True ())) \<noteq> NOT_CONNECTED
   \<and> status (result (step (constExternals 1337 None None localURLs) None (ConnectSettled True)
        (mount True ()))) = NOT_CONNECTED"
  using initial_status [of True "()" "mount True ()" "constExternals 1337 None None localURLs" None
      "ConnectSettled True"]
  by (simp add: mount_def initialResult_def tryConnect_def defaultStatus_def)

subsection \<open>C6: the pairing of a wallet on the base chain\<close>

text \<open>
  C6 says that the providers of a pairing oriented on the base chain are built from the
  endpoints of the two descriptors. The module reads no descriptor's \<^verbatim>\<open>rpcURL\<close>: it
  indexes the table \<^verbatim>\<open>rpcURLs\<close>, and it builds the rollup provider before it has the
  rollup descriptor. What holds instead: when the wallet's provider reports \<open>c\<close>, the
  requested rollup is \<open>r\<close>, and the run publishes a connected result that is not oriented
  on the rollup, then
  \<^item> the rollup provider is a direct provider for the \<^verbatim>\<open>rpcURLs\<close> entry of \<open>r\<close>;
  \<^item> the rollup descriptor is the one \<^verbatim>\<open>getL2Network\<close> gave for that provider, after
    the registration of the local networks;
  \<^item> the wallet address passes the address check, and the rollup signer is that
    provider's signer for it, keyed by its checksummed form;
  \<^item> the base signer is the wallet provider's signer of index 0;
  \<^item> the base provider is a direct provider for the \<^verbatim>\<open>rpcURLs\<close> entry of the base
    descriptor's chain identifier, and is not the wallet's provider;
  \<^item> the base descriptor is the one \<^verbatim>\<open>getL1Network\<close> gave for the wallet's provider.
\<close>

theorem wallet_on_base_pairing:
  assumes "getNetwork im (Web3Provider n) = Some c" and "selectedL2 im sel c = Some r"
    and "Connected x \<in> set (published (update im sel (Web3Provider n) a s))"
    and "\<not> isConnectedToArbitrum x"
  shows "provider (l2 x) = JsonRpcProvider (rpcURLs im r)
       \<and> getL2Network im (fst (addCustomNetwork im localNetworks s)) (provider (l2 x))
           = Some (network (l2 x))
       \<and> getSigner im (provider (l2 x)) (AccountAddress a) = Some (signer (l2 x))
       \<and> formatAddress im a \<noteq> None
       \<and> signer (l2 x) = JsonRpcSigner (provider (l2 x)) (AccountAddress (the (formatAddress im a)))
       \<and> getSigner im (Web3Provider n) (AccountIndex 0) = Some (signer (l1 x))
       \<and> signer (l1 x) = JsonRpcSigner (Web3Provider n) (AccountIndex 0)
       \<and> provider (l1 x) = JsonRpcProvider (rpcURLs im (chainID (network (l1 x))))
       \<and> provider (l1 x) \<noteq> Web3Provider n
       \<and> getL1Network im s (Web3Provider n) r = Some (network (l1 x))"
proof (cases "snd (l1Attempt im (Web3Provider n) a r (run0 s))")
  case True
  from update_fulfilled_published [OF assms(1,2) True] assms(3)
  obtain l1n l2n s1 s2 where
    f: "getL1Network im s (Web3Provider n) r = Some l1n"
      "getL2Network im (fst (addCustomNetwork im localNetworks s))
         (JsonRpcProvider (rpcURLs im r)) = Some l2n"
      "getSigner im (Web3Provider n) (AccountIndex 0) = Some s1"
      "getSigner im (JsonRpcProvider (rpcURLs im r)) (AccountAddress a) = Some s2"
    and x: "x = \<lparr>l1 = \<lparr>network = l1n, signer = s1,
                    provider = JsonRpcProvider (rpcURLs im (chainID l1n))\<rparr>,
             l2 = \<lparr>network = l2n, signer = s2,
                    provider = JsonRpcProvider (rpcURLs im r)\<rparr>,
             isConnectedToArbitrum = False\<rparr>"
    by auto
  from f(3) have s1: "s1 = JsonRpcSigner (Web3Provider n) (AccountIndex 0)" by simp
  from f(4) have s2: "formatAddress im a \<noteq> None"
    "s2 = JsonRpcSigner (JsonRpcProvider (rpcURLs im r)) (AccountAddress (the (formatAddress im a)))"
    by (auto split: option.splits)
  from f s1 s2 show ?thesis by (simp add: x del: getSigner.simps)
next
  case False
  from update_rejected_published [OF assms(1,2) False] assms(3)
  show ?thesis by (auto split: if_splits)
qed

text \<open>
  The table names the two local nodes by \<open>127.0.0.1\<close>, the descriptors by
  \<open>localhost\<close>: the providers of the published pairing carry the table's addresses.
\<close>

theorem pairing_endpoint_counterexample:
  "published (update (constExternals 1337 (Some ethLocal) (Some arbLocal) loopbackURLs)
        (Some 412346) (Web3Provider 0) accountA ())
     = [Connected (basePairing loopbackURLs accountA)]
   \<and> isConnectedToArbitrum (basePairing loopbackURLs accountA) = False
   \<and> provider (l2 (basePairing loopbackURLs accountA))
       = JsonRpcProvider (Some ''http://127.0.0.1:8547'')
   \<and> rpcURL (network (l2 (basePairing loopbackURLs accountA))) = ''http://localhost:8547''
   \<and> provider (l1 (basePairing loopbackURLs accountA))
       = JsonRpcProvider (Some ''http://127.0.0.1:8545'')
   \<and> rpcURL (network (l1 (basePairing loopbackURLs accountA))) = ''http://localhost:8545''
   \<and> accountA = ''0x1111111111111111111111111111111111111111''"
proof -
  have "accountA = ''0x1111111111111111111111111111111111111111''"
    by (simp only: accountA_def)
  then show ?thesis
    by (simp add: update_local_base) (simp add: basePairing_def loopbackURLs_def)
qed

theorem wallet_on_base_pairing_witness:
  "published (update (constExternals 1337 (Some ethLocal) (Some arbLocal) localURLs) (Some 412346)
        (Web3Provider 0) accountA ())
     = [Connected (basePairing localURLs accountA)]
   \<and> \<not> isConnectedToArbitrum (basePairing localURLs accountA)
   \<and> provider (l2 (basePairing localURLs accountA)) = JsonRpcProvider (Some ''http://localhost:8547'')
   \<and> network (l2 (basePairing localURLs accountA)) = arbLocal
   \<and> signer (l2 (basePairing localURLs accountA))
       = JsonRpcSigner (JsonRpcProvider (Some ''http://localhost:8547'')) (AccountAddress accountA)
   \<and> signer (l1 (basePairing localURLs accountA)) = JsonRpcSigner (Web3Provider 0) (AccountIndex 0)
   \<and> provider (l1 (basePairing localURLs accountA)) = JsonRpcProvider (Some ''http://localhost:8545'')"
proof -
  let ?im = "constExternals 1337 (Some ethLocal) (Some arbLocal) localURLs"
  have a: "getNetwork ?im (Web3Provider 0) = Some 1337" by simp
  have b: "selectedL2 ?im (Some 412346) 1337 = Some 412346" by (simp add: selectedL2_def)
  have c: "Connected (basePairing localURLs accountA)
      \<in> set (published (update ?im (Some 412346) (Web3Provider 0) accountA ()))"
    by (simp add: update_local_base)
  have d: "\<not> isConnectedToArbitrum (basePairing localURLs accountA)"
    by (simp add: basePairing_def)
  from wallet_on_base_pairing [OF a b c d] d show ?thesis
    by (simp add: update_local_base localURLs_def basePairing_def)
qed

subsection \<open>C7: the account disappears\<close>

text \<open>
  C7: when the published status is \<^verbatim>\<open>connected\<close> and the wallet comes back without an
  account, the effects publish \<^verbatim>\<open>not_connected\<close>, start no call of \<^verbatim>\<open>update\<close> (the calls
  in flight are the ones that were) and leave the network library as it was.
\<close>

theorem account_absent_resets:
  assumes "status (result m) = CONNECTED"
  shows "result (step im sel (WalletChanged prov None net) m) = NotConnected
       \<and> updateEffect prov None net = None
       \<and> inFlight (step im sel (WalletChanged prov None net) m) = inFlight m
       \<and> library (step im sel (WalletChanged prov None net) m) = library m"
  using assms by (simp add: resetEffect_def updateEffect_def split: option.splits)

theorem account_absent_resets_witness:
  "status (Connected (basePairing localURLs accountA)) = CONNECTED
   \<and> result (step (constExternals 1337 (Some ethLocal) (Some arbLocal) localURLs) (Some 412346)
        (WalletChanged (Some (Web3Provider 0)) None (Some 1337))
        \<lparr>result = Connected (basePairing localURLs accountA), walletAccount = Some accountA,
          inFlight = [], library = ()\<rparr>) = NotConnected
   \<and> inFlight (step (constExternals 1337 (Some ethLocal) (Some arbLocal) localURLs) (Some 412346)
        (WalletChanged (Some (Web3Provider 0)) None (Some 1337))
        \<lparr>result = Connected (basePairing localURLs accountA), walletAccount = Some accountA,
          inFlight = [], library = ()\<rparr>) = []"
  using account_absent_resets [of
      "\<lparr>result = Connected (basePairing localURLs accountA), walletAccount = Some accountA,
          inFlight = [], library = ()\<rparr>"
      "constExternals 1337 (Some ethLocal) (Some arbLocal) localURLs" "Some 412346"
      "Some (Web3Provider 0)" "Some 1337"]
  by simp

subsection \<open>C8: the accessor outside its scope\<close>

text \<open>
  C8: \<^verbatim>\<open>useNetworksAndSigners\<close> throws when no context value is installed, and returns
  the installed value otherwise; under the provider the component renders for a connected
  result, that value is the connected result.
\<close>

theorem useNetworksAndSigners_scope:
  "useNetworksAndSigners None =
     Inl (Error
       ''The useNetworksAndSigners Hook must only be used inside NetworksAndSignersContext.Provider.'')
   \<and> useNetworksAndSigners (Some c) = Inr c
   \<and> useNetworksAndSigners (contextOfChildren (renderProvider (Connected c))) = Inr c"
  by (simp add: useNetworksAndSigners_def renderProvider_def)

subsection \<open>C9: the registration is fixed\<close>

text \<open>
  C9 says that whichever orientation branch of \<^verbatim>\<open>update\<close> runs registers the same fixed
  pair, the base chain 1337 (EthLocal, partner 412346) and the rollup 412346 (ArbLocal,
  partner 1337), whatever the wallet reports and whatever rollup is requested.
  \<^item> A run leaves the network library either as it was, having made no call of
    \<^verbatim>\<open>addCustomNetwork\<close>, or as one call of \<^verbatim>\<open>addCustomNetwork\<close> with that pair leaves
    it: no other argument is ever passed.
  \<^item> The base branch: when \<^verbatim>\<open>getL1Network\<close> resolves for the wallet's provider, the run
    makes that one call.
  \<^item> The rollup branch: when \<^verbatim>\<open>getL1Network\<close> rejects and the reported chain is the
    requested rollup, the claim asks for the same call. The run makes no call and the
    library stays as it was: the callback of \<^verbatim>\<open>.catch\<close> fails at its \<^verbatim>\<open>await\<close>, before
    the call.
\<close>

theorem update_registers_local:
  "(sdkState (update im sel w a s) = s \<and> registered (update im sel w a s) = []
      \<or> sdkState (update im sel w a s) = fst (addCustomNetwork im localNetworks s)
         \<and> registered (update im sel w a s) = [localNetworks])
   \<and> chainID (customL1Network localNetworks) = 1337
   \<and> name (customL1Network localNetworks) = ''EthLocal''
   \<and> partnerChainIDs (customL1Network localNetworks) = [412346]
   \<and> chainID (customL2Network localNetworks) = 412346
   \<and> name (customL2Network localNetworks) = ''ArbLocal''
   \<and> partnerChainID (customL2Network localNetworks) = 1337
   \<and> (getNetwork im w = Some c \<and> selectedL2 im sel c = Some r \<and> getL1Network im s w r \<noteq> None
      \<longrightarrow> sdkState (update im sel w a s) = fst (addCustomNetwork im localNetworks s)
          \<and> registered (update im sel w a s) = [localNetworks])
   \<and> (getNetwork im w = Some c \<and> selectedL2 im sel c = Some c \<and> getL1Network im s w c = None
      \<longrightarrow> sdkState (update im sel w a s) = s \<and> registered (update im sel w a s) = [])"
proof -
  have b: "sdkState (update im sel w a s) = fst (addCustomNetwork im localNetworks s)
          \<and> registered (update im sel w a s) = [localNetworks]"
    if "getNetwork im w = Some c" "selectedL2 im sel c = Some r" "getL1Network im s w r \<noteq> None"
    using that by (rule update_base_registration)
  have r: "sdkState (update im sel w a s) = s \<and> registered (update im sel w a s) = []"
    if "getNetwork im w = Some c" "selectedL2 im sel c = Some c" "getL1Network im s w c = None"
    using update_no_base [OF that] by simp
  have c: "chainID (customL1Network localNetworks) = 1337
   \<and> name (customL1Network localNetworks) = ''EthLocal''
   \<and> partnerChainIDs (customL1Network localNetworks) = [412346]
   \<and> chainID (customL2Network localNetworks) = 412346
   \<and> name (customL2Network localNetworks) = ''ArbLocal''
   \<and> partnerChainID (customL2Network localNetworks) = 1337"
    by (simp add: localNetworks_def ethLocal_def arbLocal_def)
  from update_registration [of im sel w a s] b r c show ?thesis by blast
qed

text \<open>
  On a registry that holds the base descriptor only, with no rollup requested: the run
  for the wallet on the base chain 1337 registers the local pair, which adds the rollup
  412346; the run for the wallet on the chain 412346 registers nothing.
\<close>

theorem update_registers_local_witness:
  "update (specExternals (localReported 1337) digitAddress localDefaults localURLs) None
      (Web3Provider 0) accountA [(1337, Base ethLocal)] =
     \<lparr>published = [Connected (basePairing localURLs accountA)],
      registered = [localNetworks], sdkState = seededRegistry\<rparr>
   \<and> fst (specAddCustomNetwork localNetworks [(1337, Base ethLocal)]) = seededRegistry
   \<and> seededRegistry \<noteq> [(1337, Base ethLocal)]
   \<and> update (specExternals (localReported 412346) digitAddress localDefaults localURLs) None
      (Web3Provider 0) accountA [(1337, Base ethLocal)] =
     \<lparr>published = [], registered = [], sdkState = [(1337, Base ethLocal)]\<rparr>"
proof -
  let ?im = "\<lambda>c. specExternals (localReported c) digitAddress localDefaults localURLs"
  let ?reg = "[(1337, Base ethLocal)] :: registry"
  have b: "getNetwork (?im 1337) (Web3Provider 0) = Some 1337
      \<and> selectedL2 (?im 1337) None 1337 = Some 412346
      \<and> getL1Network (?im 1337) ?reg (Web3Provider 0) 412346 \<noteq> None"
    by (simp add: selectedL2_def specGetL1Network_def lookupBase_def)
  have r: "getNetwork (?im 412346) (Web3Provider 0) = Some 412346
      \<and> selectedL2 (?im 412346) None 412346 = Some 412346
      \<and> getL1Network (?im 412346) ?reg (Web3Provider 0) 412346 = None"
    by (simp add: selectedL2_def specGetL1Network_def lookupBase_def)
  have add: "fst (specAddCustomNetwork localNetworks ?reg) = seededRegistry"
    by (simp add: specAddCustomNetwork_local register_base_only)
  have ne: "seededRegistry \<noteq> ?reg" by (simp add: seededRegistry_def)
  from update_registers_local
         [where im="?im 1337" and w="Web3Provider 0" and c=1337 and sel=None and r=412346
            and a=accountA and s="?reg"] b add
  have 1: "sdkState (update (?im 1337) None (Web3Provider 0) accountA ?reg) = seededRegistry
      \<and> registered (update (?im 1337) None (Web3Provider 0) accountA ?reg) = [localNetworks]"
    by simp
  from update_registers_local
         [where im="?im 412346" and w="Web3Provider 0" and c=412346 and sel=None
            and a=accountA and s="?reg"] r
  have 2: "sdkState (update (?im 412346) None (Web3Provider 0) accountA ?reg) = ?reg
      \<and> registered (update (?im 412346) None (Web3Provider 0) accountA ?reg) = []"
    by simp
  have 3: "published (update (?im 412346) None (Web3Provider 0) accountA ?reg) = []"
    using r update_no_base [of "?im 412346" "Web3Provider 0" 412346 None 412346 ?reg accountA]
    by simp
  have 4: "published (update (?im 1337) None (Web3Provider 0) accountA ?reg)
      = [Connected (basePairing localURLs accountA)]"
    by (simp add: spec_run_on_base)
  have eq: "x = \<lparr>published = published x, registered = registered x, sdkState = sdkState x\<rparr>"
    for x :: "registry run"
    by simp
  show ?thesis
    using 1 2 3 4 add ne
      eq [of "update (?im 1337) None (Web3Provider 0) accountA ?reg"]
      eq [of "update (?im 412346) None (Web3Provider 0) accountA ?reg"]
    by simp
qed

subsection \<open>C10: the balance of an executed withdrawal\<close>

text \<open>
  C10: with the token bridge and its balances present, the balance is the ETH balance when
  the asset is \<^verbatim>\<open>eth\<close>, and otherwise, when the transaction has a token address (a
  non-empty string, as the test \<^verbatim>\<open>!tx.tokenAddress\<close> reads it), the balance of the ERC-20
  entry under that address (\<^verbatim>\<open>undefined\<close> when there is no entry). The balance is
  \<^verbatim>\<open>null\<close> when the token bridge or its balances are absent, and when the asset is not
  \<^verbatim>\<open>eth\<close> and the token address is missing. For \<^verbatim>\<open>null\<close> the card shows the loader, for
  a balance it shows that balance.
\<close>

theorem withdrawal_balance:
  "(balances b = Some bs \<and> asset tx = ''eth'' \<longrightarrow>
      memoBalance tx (Some b) = balance (eth bs))
   \<and> (balances b = Some bs \<and> asset tx \<noteq> ''eth'' \<and> tokenAddress tx = Some t \<and> t \<noteq> [] \<longrightarrow>
      memoBalance tx (Some b) = (case erc20 bs t of None \<Rightarrow> Undefined | Some e \<Rightarrow> balance e))
   \<and> memoBalance tx None = Null
   \<and> (balances b = None \<longrightarrow> memoBalance tx (Some b) = Null)
   \<and> (asset tx \<noteq> ''eth'' \<and> (tokenAddress tx = None \<or> tokenAddress tx = Some []) \<longrightarrow>
      memoBalance tx ab = Null)
   \<and> newBalance Null = Loader
   \<and> newBalance (Defined n) = BalanceText n"
  by (auto simp: memoBalance_def newBalance_def split: option.splits)

theorem withdrawal_balance_witness:
  "memoBalance \<lparr>txId = ''0x1'', asset = ''eth'', tokenAddress = None\<rparr>
      (Some \<lparr>balances = Some \<lparr>eth = \<lparr>balance = Defined 5\<rparr>,
                               erc20 = [''0xT'' \<mapsto> \<lparr>balance = Defined 7\<rparr>]\<rparr>\<rparr>)
     = Defined 5
   \<and> memoBalance \<lparr>txId = ''0x1'', asset = ''dai'', tokenAddress = Some ''0xT''\<rparr>
      (Some \<lparr>balances = Some \<lparr>eth = \<lparr>balance = Defined 5\<rparr>,
                               erc20 = [''0xT'' \<mapsto> \<lparr>balance = Defined 7\<rparr>]\<rparr>\<rparr>)
     = Defined 7
   \<and> memoBalance \<lparr>txId = ''0x1'', asset = ''dai'', tokenAddress = Some ''0xT''\<rparr>
      (Some \<lparr>balances = None\<rparr>) = Null
   \<and> memoBalance \<lparr>txId = ''0x1'', asset = ''dai'', tokenAddress = None\<rparr>
      (Some \<lparr>balances = Some \<lparr>eth = \<lparr>balance = Defined 5\<rparr>,
                               erc20 = [''0xT'' \<mapsto> \<lparr>balance = Defined 7\<rparr>]\<rparr>\<rparr>)
     = Null"
  using
    withdrawal_balance [of
      "\<lparr>balances = Some \<lparr>eth = \<lparr>balance = Defined 5\<rparr>,
                          erc20 = [''0xT'' \<mapsto> \<lparr>balance = Defined 7\<rparr>]\<rparr>\<rparr>"
      "\<lparr>eth = \<lparr>balance = Defined 5\<rparr>, erc20 = [''0xT'' \<mapsto> \<lparr>balance = Defined 7\<rparr>]\<rparr>"
      "\<lparr>txId = ''0x1'', asset = ''eth'', tokenAddress = None\<rparr>"]
    withdrawal_balance [of
      "\<lparr>balances = Some \<lparr>eth = \<lparr>balance = Defined 5\<rparr>,
                          erc20 = [''0xT'' \<mapsto> \<lparr>balance = Defined 7\<rparr>]\<rparr>\<rparr>"
      "\<lparr>eth = \<lparr>balance = Defined 5\<rparr>, erc20 = [''0xT'' \<mapsto> \<lparr>balance = Defined 7\<rparr>]\<rparr>"
      "\<lparr>txId = ''0x1'', asset = ''dai'', tokenAddress = Some ''0xT''\<rparr>" "''0xT''"]
    withdrawal_balance [of "\<lparr>balances = None\<rparr>" _
      "\<lparr>txId = ''0x1'', asset = ''dai'', tokenAddress = Some ''0xT''\<rparr>"]
    withdrawal_balance [of _ _
      "\<lparr>txId = ''0x1'', asset = ''dai'', tokenAddress = None\<rparr>" _
      "Some \<lparr>balances = Some \<lparr>eth = \<lparr>balance = Defined 5\<rparr>,
                               erc20 = [''0xT'' \<mapsto> \<lparr>balance = Defined 7\<rparr>]\<rparr>\<rparr>"]
  by simp

end
